theory Spec2Isabelle
  imports Main "HOL-Library.Sublist"
begin

section \<open>JavaScript values used by the scripts\<close>

text \<open>
  JavaScript numbers are binary64 floating-point values. The model keeps those whose
  value is an integer (\<open>Num i\<close>, where \<open>i\<close> is meant to be representable in binary64),
  the two infinities and \<open>NaN\<close>, next to \<open>undefined\<close>. Negative zero is identified with
  zero: the two agree under \<open>*\<close> up to the sign of a zero result, under \<open>==\<close> and when
  printed. Numbers with a fractional part are outside the model.
\<close>

datatype jsval = Num int | PosInf | NegInf | NaN | Undefined

text \<open>The number of binary digits of a natural number.\<close>

fun bits :: "nat \<Rightarrow> nat" where
  "bits n = (if n = 0 then 0 else Suc (bits (n div 2)))"

declare bits.simps [simp del]

text \<open>
  Rounding to 53 significant binary digits, to nearest and with ties to the even
  significand, as binary64 arithmetic rounds an exact result.
\<close>

definition round53 :: "nat \<Rightarrow> nat" where
  "round53 m =
     (if bits m \<le> 53 then m
      else (let d = 2 ^ (bits m - 53); q = m div d; r = m mod d; half = d div 2
            in if half < r \<or> (r = half \<and> odd q) then (q + 1) * d else q * d))"

text \<open>
  The binary64 value of an exact integer result: rounded, and an infinity when the
  rounded magnitude reaches \<open>2^1024\<close>.
\<close>

definition to_double :: "int \<Rightarrow> jsval" where
  "to_double x =
     (let m = round53 (nat \<bar>x\<bar>)
      in if 2 ^ 1024 \<le> m then (if x < 0 then NegInf else PosInf)
         else (if x < 0 then Num (- int m) else Num (int m)))"

text \<open>
  The operator \<open>*\<close>: both operands go through ToNumber, where \<open>undefined\<close> becomes
  \<open>NaN\<close>; the product of two integers is rounded; an infinity times zero is \<open>NaN\<close>.
\<close>

fun js_mul :: "jsval \<Rightarrow> jsval \<Rightarrow> jsval" where
  "js_mul (Num a) (Num b) = to_double (a * b)"
| "js_mul PosInf (Num b) = (if b = 0 then NaN else if b < 0 then NegInf else PosInf)"
| "js_mul NegInf (Num b) = (if b = 0 then NaN else if b < 0 then PosInf else NegInf)"
| "js_mul (Num a) PosInf = (if a = 0 then NaN else if a < 0 then NegInf else PosInf)"
| "js_mul (Num a) NegInf = (if a = 0 then NaN else if a < 0 then PosInf else NegInf)"
| "js_mul PosInf PosInf = PosInf"
| "js_mul PosInf NegInf = NegInf"
| "js_mul NegInf PosInf = NegInf"
| "js_mul NegInf NegInf = PosInf"
| "js_mul _ _ = NaN"

text \<open>The operator \<open>==\<close> on these values: \<open>NaN\<close> is equal to nothing, itself included.\<close>

fun js_eq :: "jsval \<Rightarrow> jsval \<Rightarrow> bool" where
  "js_eq (Num a) (Num b) = (a = b)"
| "js_eq PosInf PosInf = True"
| "js_eq NegInf NegInf = True"
| "js_eq Undefined Undefined = True"
| "js_eq _ _ = False"

text \<open>
  Decimal rendering of an integer. A template literal prints an integer of magnitude
  up to \<open>2^53\<close> with exactly these digits. Larger numbers are printed by JavaScript with
  the shortest digits that identify them, and in exponent notation from \<open>10^21\<close> on;
  no property below evaluates the rendering of such a number.
\<close>

fun show_nat :: "nat \<Rightarrow> string" where
  "show_nat n =
     (if n < 10 then [''0123456789'' ! n]
      else show_nat (n div 10) @ [''0123456789'' ! (n mod 10)])"

declare show_nat.simps [simp del]

definition show_int :: "int \<Rightarrow> string" where
  "show_int i = (if i < 0 then CHR ''-'' # show_nat (nat (- i)) else show_nat (nat i))"

fun js_toString :: "jsval \<Rightarrow> string" where
  "js_toString (Num i) = show_int i"
| "js_toString PosInf = ''Infinity''"
| "js_toString NegInf = ''-Infinity''"
| "js_toString NaN = ''NaN''"
| "js_toString Undefined = ''undefined''"

section \<open>Console and file system\<close>

text \<open>A product of the open/closed example; the makeshift enums are frozen string tables.\<close>

record Product =
  name :: string
  color :: string
  size' :: string

text \<open>
  What a script does to the outside is kept as a list of events, oldest first: every
  \<open>console.log\<close> with the value it was given, and every call of \<open>fs.writeFileSync\<close>
  with its path and data.
\<close>

datatype logarg = LStr string | LVal jsval | LProducts "Product list"

datatype event = ConsoleLog logarg | WriteFileSync string string

datatype error = WriteFailed string

text \<open>
  The file system maps a path to the content of the file there. Whether a write goes
  through is the environment's choice: \<open>unwritable\<close> is the set of paths at which
  \<open>fs.writeFileSync\<close> throws.
\<close>

record world =
  files :: "string \<Rightarrow> string option"
  unwritable :: "string set"
  events :: "event list"

definition console_log :: "logarg \<Rightarrow> world \<Rightarrow> world" where
  "console_log a w = w\<lparr>events := events w @ [ConsoleLog a]\<rparr>"

text \<open>
  \<open>fs.writeFileSync(file, data)\<close>: the call is recorded; it either throws or replaces
  the content of the file by \<open>data\<close>.
\<close>

definition writeFileSync :: "string \<Rightarrow> string \<Rightarrow> world \<Rightarrow> (error + unit) \<times> world" where
  "writeFileSync file data w =
     (let w1 = w\<lparr>events := events w @ [WriteFileSync file data]\<rparr>
      in if file \<in> unwritable w then (Inl (WriteFailed file), w1)
         else (Inr (), w1\<lparr>files := (files w1)(file \<mapsto> data)\<rparr>))"

fun is_write :: "event \<Rightarrow> bool" where
  "is_write (WriteFileSync _ _) = True"
| "is_write (ConsoleLog _) = False"

section \<open>Liskov substitution: Rectangle and Square\<close>

text \<open>
  An object carries the class it was constructed with, which decides the method a call
  resolves to. \<open>width\<close> and \<open>height\<close> are own properties written by the constructor, so
  reading \<open>rect.width\<close> yields the field (the function later stored under the same name
  on the prototype is shadowed).
\<close>

datatype shape_class = RectangleClass | SquareClass

record Rectangle =
  proto :: shape_class
  width :: jsval
  height :: jsval

definition new_Rectangle :: "jsval \<Rightarrow> jsval \<Rightarrow> Rectangle" where
  "new_Rectangle w h = \<lparr>proto = RectangleClass, width = w, height = h\<rparr>"

text \<open>\<open>new Square(size)\<close> runs \<open>super(size, size)\<close>; \<open>new Square()\<close> passes \<open>undefined\<close>.\<close>

definition new_Square :: "jsval \<Rightarrow> Rectangle" where
  "new_Square sz = (new_Rectangle sz sz)\<lparr>proto := SquareClass\<rparr>"

definition area :: "Rectangle \<Rightarrow> jsval" where
  "area r = js_mul (width r) (height r)"

definition Rectangle_toString :: "Rectangle \<Rightarrow> string" where
  "Rectangle_toString r = js_toString (width r) @ ''x'' @ js_toString (height r)"

definition Rectangle_setWidth :: "jsval \<Rightarrow> Rectangle \<Rightarrow> Rectangle" where
  "Rectangle_setWidth v r = r\<lparr>width := v\<rparr>"

definition Rectangle_setHeight :: "jsval \<Rightarrow> Rectangle \<Rightarrow> Rectangle" where
  "Rectangle_setHeight v r = r\<lparr>height := v\<rparr>"

text \<open>The one function installed as both \<open>Square.prototype.setWidth\<close> and \<open>setHeight\<close>.\<close>

definition Square_setSide :: "jsval \<Rightarrow> Rectangle \<Rightarrow> Rectangle" where
  "Square_setSide v r = (r\<lparr>height := v\<rparr>)\<lparr>width := v\<rparr>"

text \<open>Method lookup: the object's own class first, then the base class.\<close>

definition setWidth :: "jsval \<Rightarrow> Rectangle \<Rightarrow> Rectangle" where
  "setWidth v r =
     (case proto r of SquareClass \<Rightarrow> Square_setSide v r
      | RectangleClass \<Rightarrow> Rectangle_setWidth v r)"

definition setHeight :: "jsval \<Rightarrow> Rectangle \<Rightarrow> Rectangle" where
  "setHeight v r =
     (case proto r of SquareClass \<Rightarrow> Square_setSide v r
      | RectangleClass \<Rightarrow> Rectangle_setHeight v r)"

text \<open>\<open>stretch\<close> mutates the object it is given and prints three lines.\<close>

definition stretch :: "Rectangle \<Rightarrow> world \<Rightarrow> Rectangle \<times> world" where
  "stretch rect w =
     (let originalArea = area rect;
          w1 = console_log (LStr (''Before stretching, area is: '' @ js_toString originalArea)) w;
          rect1 = setWidth (js_mul (width rect) (Num 2)) rect;
          rect2 = setHeight (js_mul (height rect1) (Num 2)) rect1;
          w2 = console_log (LStr (''Expected area: '' @ js_toString (js_mul (Num 4) originalArea))) w1;
          w3 = console_log (LStr (''Actual area: '' @ js_toString (area rect2))) w2
      in (rect2, w3))"

section \<open>Single responsibility: the Journal\<close>

text \<open>
  \<open>entries\<close> is a plain object whose keys are the integers handed out by \<open>addEntry\<close>.
  It is kept as a list of key and value pairs in ascending key order, the order in
  which \<open>Object.values\<close> enumerates integer keys.
\<close>

fun obj_set :: "int \<Rightarrow> string \<Rightarrow> (int \<times> string) list \<Rightarrow> (int \<times> string) list" where
  "obj_set k v [] = [(k, v)]"
| "obj_set k v (e # es) =
     (if k = fst e then (k, v) # es
      else if k < fst e then (k, v) # e # es
      else e # obj_set k v es)"

text \<open>\<open>delete obj[k]\<close>: removes the key if it is there, and is silent otherwise.\<close>

definition obj_delete :: "int \<Rightarrow> (int \<times> string) list \<Rightarrow> (int \<times> string) list" where
  "obj_delete k es = filter (\<lambda>e. fst e \<noteq> k) es"

definition obj_values :: "(int \<times> string) list \<Rightarrow> string list" where
  "obj_values es = map snd es"

text \<open>\<open>Array.prototype.join\<close> on strings.\<close>

fun join :: "string \<Rightarrow> string list \<Rightarrow> string" where
  "join sep [] = []"
| "join sep [x] = x"
| "join sep (x # y # ys) = x @ sep @ join sep (y # ys)"

record Journal =
  count :: int
  entries :: "(int \<times> string) list"

definition new_Journal :: Journal where
  "new_Journal = \<lparr>count = 0, entries = []\<rparr>"

definition addEntry :: "string \<Rightarrow> Journal \<Rightarrow> int \<times> Journal" where
  "addEntry text j =
     (let c = count j + 1;
          entry = show_int c @ '': '' @ text
      in (c, j\<lparr>count := c, entries := obj_set c entry (entries j)\<rparr>))"

definition removeEntry :: "int \<Rightarrow> Journal \<Rightarrow> Journal" where
  "removeEntry index j = j\<lparr>entries := obj_delete index (entries j)\<rparr>"

definition Journal_toString :: "Journal \<Rightarrow> string" where
  "Journal_toString j = join [CHR 0x0A] (obj_values (entries j))"

text \<open>
  A history of method calls on one journal, and the journal that \<open>new Journal()\<close>
  becomes after it. \<open>added\<close> lists the texts passed to \<open>addEntry\<close>, oldest first;
  \<open>numbered n ts\<close> is what \<open>addEntry\<close> builds for the texts \<open>ts\<close> when the first of
  them receives number \<open>n\<close>.
\<close>

datatype journal_call = AddEntry string | RemoveEntry int

fun call :: "journal_call \<Rightarrow> Journal \<Rightarrow> Journal" where
  "call (AddEntry text) j = snd (addEntry text j)"
| "call (RemoveEntry index) j = removeEntry index j"

fun added :: "journal_call list \<Rightarrow> string list" where
  "added [] = []"
| "added (AddEntry text # cs) = text # added cs"
| "added (RemoveEntry index # cs) = added cs"

fun numbered :: "int \<Rightarrow> string list \<Rightarrow> (int \<times> string) list" where
  "numbered n [] = []"
| "numbered n (t # ts) = (n, show_int n @ '': '' @ t) # numbered (n + 1) ts"

definition run :: "journal_call list \<Rightarrow> Journal" where
  "run cs = fold call cs new_Journal"


text \<open>
  \<open>saveToFile\<close> is handed the journal object and could mutate it, so the journal is
  part of what it returns, next to the outcome of the write and the world.
\<close>

definition saveToFile :: "Journal \<Rightarrow> string \<Rightarrow> world \<Rightarrow> (error + unit) \<times> Journal \<times> world" where
  "saveToFile journal fileName w =
     (case writeFileSync fileName (Journal_toString journal) w of
        (r, w1) \<Rightarrow> (r, journal, w1))"

text \<open>
  The statements at the top level of \<open>s_for_single_responsibility.js\<close>. The call of
  \<open>saveToFile\<close> is the last statement, outside any handler: an exception it throws
  is the outcome of the script.
\<close>

definition script_s_for_single_responsibility :: "world \<Rightarrow> (error + unit) \<times> Journal \<times> world" where
  "script_s_for_single_responsibility w =
     (let journal0 = new_Journal;
          journal1 = snd (addEntry ''Today was a great day!'' journal0);
          journal2 = snd (addEntry ''I made a new friend today'' journal1);
          w1 = console_log (LStr (Journal_toString journal2)) w;
          fileName = ''./journal.txt''
      in saveToFile journal2 fileName w1)"

text \<open>What the journal of that script prints as: its two entries, joined by a newline.\<close>

definition journal_text :: string where
  "journal_text = ''1: Today was a great day!'' @ [CHR 0x0A] @ ''2: I made a new friend today''"

section \<open>Open/closed: product filters\<close>

definition Color_red :: string where "Color_red = ''red''"
definition Color_green :: string where "Color_green = ''green''"
definition Color_blue :: string where "Color_blue = ''blue''"

definition Size_small :: string where "Size_small = ''small''"
definition Size_medium :: string where "Size_medium = ''medium''"
definition Size_large :: string where "Size_large = ''large''"

definition new_Product :: "string \<Rightarrow> string \<Rightarrow> string \<Rightarrow> Product" where
  "new_Product n c s = \<lparr>name = n, color = c, size' = s\<rparr>"

definition filterByColor :: "Product list \<Rightarrow> string \<Rightarrow> Product list" where
  "filterByColor products c = filter (\<lambda>p. color p = c) products"

definition filterBySize :: "Product list \<Rightarrow> string \<Rightarrow> Product list" where
  "filterBySize products s = filter (\<lambda>p. size' p = s) products"

text \<open>The two specification classes; \<open>isSatisfied\<close> is resolved by the class of the object.\<close>

datatype Specification = ColorSpecification string | SizeSpecification string

fun isSatisfied :: "Specification \<Rightarrow> Product \<Rightarrow> bool" where
  "isSatisfied (ColorSpecification c) item = (color item = c)"
| "isSatisfied (SizeSpecification s) item = (size' item = s)"

definition Filter2_filter :: "Product list \<Rightarrow> Specification \<Rightarrow> Product list" where
  "Filter2_filter items spec = filter (\<lambda>item. isSatisfied spec item) items"

definition products :: "Product list" where
  "products =
     [new_Product ''Book'' Color_red Size_small,
      new_Product ''laptop'' Color_blue Size_medium,
      new_Product ''Surfboard'' Color_green Size_large]"

text \<open>The top level of \<open>o_for_open_closed.js\<close>, which stops after the first filter.\<close>

definition script_o_for_open_closed :: "world \<Rightarrow> world" where
  "script_o_for_open_closed w =
     (let redProducts = filterByColor products Color_red
      in console_log (LProducts redProducts) w)"

text \<open>The top level of the complete open/closed script (\<open>part_002\<close>).\<close>

definition script_part_002 :: "world \<Rightarrow> world" where
  "script_part_002 w =
     (let redProducts = filterByColor products Color_red;
          w1 = console_log (LProducts redProducts) w;
          greenColorSpec = ColorSpecification Color_green;
          w2 = console_log (LStr ''Green products based on the new filter:'') w1;
          greens = Filter2_filter products greenColorSpec
      in console_log (LProducts greens) w2)"

section \<open>The Liskov scripts\<close>

text \<open>The top level of \<open>part_001\<close>, which stops after the check of the square setter.\<close>

definition script_part_001 :: "world \<Rightarrow> world" where
  "script_part_001 w =
     (let rc = new_Rectangle (Num 10) (Num 20);
          w1 = console_log (LStr (Rectangle_toString rc)) w;
          sq = new_Square (Num 5);
          w2 = console_log (LStr (Rectangle_toString sq)) w1;
          sq_a = sq\<lparr>width := Num 10\<rparr>;
          w3 = console_log (LStr (Rectangle_toString sq_a)) w2;
          sq2 = new_Square Undefined;
          sq2_a = setWidth (Num 10) sq2
      in console_log (LVal (area sq2_a)) w3)"

text \<open>The top level of the complete Liskov script (\<open>part_000\<close>).\<close>

definition script_part_000 :: "world \<Rightarrow> world" where
  "script_part_000 w =
     (let rc = new_Rectangle (Num 10) (Num 20);
          w1 = console_log (LStr (Rectangle_toString rc)) w;
          sq = new_Square (Num 5);
          w2 = console_log (LStr (Rectangle_toString sq)) w1;
          sq_a = sq\<lparr>width := Num 10\<rparr>;
          w3 = console_log (LStr (Rectangle_toString sq_a)) w2;
          sq2 = new_Square Undefined;
          sq2_a = setWidth (Num 10) sq2;
          w4 = console_log (LVal (area sq2_a)) w3;
          rect2 = new_Rectangle (Num 11) (Num 5);
          w5 = snd (stretch rect2 w4);
          sq3 = new_Square (Num 10)
      in snd (stretch sq3 w5))"

section \<open>Properties of the number model\<close>

lemma bits_le: "m < 2 ^ k \<Longrightarrow> bits m \<le> k"
proof (induction k arbitrary: m)
  case 0
  then show ?case by (simp add: bits.simps)
next
  case (Suc k)
  show ?case
  proof (cases "m = 0")
    case True
    then show ?thesis by (simp add: bits.simps)
  next
    case False
    from Suc.prems have "m div 2 < 2 ^ k" by simp
    from Suc.IH [OF this] False show ?thesis by (subst bits.simps) simp
  qed
qed

text \<open>Below \<open>2^53\<close> in magnitude every integer is a binary64 value: nothing is rounded.\<close>

lemma to_double_exact: "\<bar>x\<bar> < 9007199254740992 \<Longrightarrow> to_double x = Num x"
proof -
  assume a: "\<bar>x\<bar> < 9007199254740992"
  then have "nat \<bar>x\<bar> < 2 ^ 53" by simp
  then have b: "bits (nat \<bar>x\<bar>) \<le> 53" by (rule bits_le)
  have "nat \<bar>x\<bar> < 2 ^ 1024" using a by (simp add: nat_less_iff)
  then show ?thesis using b by (auto simp add: to_double_def round53_def Let_def)
qed

lemma bits_pow2: "bits (2 ^ k) = Suc k"
proof (induction k)
  case 0
  show ?case by (simp add: bits.simps)
next
  case (Suc k)
  have "bits (2 ^ Suc k) = Suc (bits (2 ^ Suc k div 2))" by (subst bits.simps) simp
  then show ?case using Suc by simp
qed

lemma round53_pow2: "round53 (2 ^ k) = 2 ^ k"
proof (cases "k < 53")
  case True
  then show ?thesis by (simp add: round53_def bits_pow2)
next
  case False
  then have k: "52 \<le> k" by simp
  have d: "(2::nat) ^ k div 2 ^ (k - 52) = 2 ^ 52"
    using k by (simp add: power_diff_power_eq)
  have m: "(2::nat) ^ k mod 2 ^ (k - 52) = 0"
    using k by (simp add: le_imp_power_dvd)
  have p: "(2::nat) ^ 52 * 2 ^ (k - 52) = 2 ^ k"
    using k by (simp only: power_add [symmetric] le_add_diff_inverse)
  have "bits (2 ^ k) - 53 = k - 52" by (simp add: bits_pow2)
  with False d m p show ?thesis
    by (simp add: round53_def bits_pow2 Let_def del: power_numeral)
qed

text \<open>The product \<open>2^1023 * 2\<close> is beyond the largest finite binary64 value.\<close>

lemma to_double_overflow: "to_double (2 ^ 1024) = PosInf"
proof -
  have "nat \<bar>2 ^ 1024 :: int\<bar> = 2 ^ 1024" by simp
  moreover have "\<not> (2 ^ 1024 :: int) < 0" by simp
  ultimately show ?thesis
    unfolding to_double_def Let_def by (simp only: round53_pow2 order_refl if_True if_False)
qed

lemmas to_double_overflow_numeral = to_double_overflow [simplified]

lemma abs_le_square: "\<bar>s\<bar> \<le> s * (s::int)"
proof (cases "s = 0")
  case True
  then show ?thesis by simp
next
  case False
  then have "1 \<le> \<bar>s\<bar>" by simp
  then have "\<bar>s\<bar> * 1 \<le> \<bar>s\<bar> * \<bar>s\<bar>" by (intro mult_left_mono) simp_all
  then show ?thesis by (simp add: abs_mult_self_eq)
qed

section \<open>Properties of the shapes\<close>

text \<open>
  C1. For a square built with an integer side \<open>s\<close> such that \<open>16 * s^2\<close> is below \<open>2^53\<close>
  (every product \<open>stretch\<close> forms is then exact), stretching leaves an area of
  \<open>16 * s^2\<close>, while the expected value \<open>4 * originalArea\<close> is \<open>4 * s^2\<close>: the actual area
  is four times the expected one, and the printed lines show exactly these numbers.
\<close>

theorem stretch_Square_area:
  assumes "16 * s\<^sup>2 < 2 ^ 53"
  shows "area (fst (stretch (new_Square (Num s)) w)) = Num (16 * s\<^sup>2)
   \<and> js_mul (Num 4) (area (new_Square (Num s))) = Num (4 * s\<^sup>2)
   \<and> area (fst (stretch (new_Square (Num s)) w))
       = js_mul (Num 4) (js_mul (Num 4) (area (new_Square (Num s))))
   \<and> events (snd (stretch (new_Square (Num s)) w)) = events w @
       [ConsoleLog (LStr (''Before stretching, area is: '' @ show_int (s\<^sup>2))),
        ConsoleLog (LStr (''Expected area: '' @ show_int (4 * s\<^sup>2))),
        ConsoleLog (LStr (''Actual area: '' @ show_int (16 * s\<^sup>2)))]"
proof -
  have sq: "0 \<le> s * s" by simp
  have b16: "s * s * 16 < 9007199254740992" using assms by (simp add: power2_eq_square)
  have ab: "\<bar>s\<bar> \<le> s * s" by (rule abs_le_square)
  have t1: "to_double (s * s) = Num (s * s)"
    using sq b16 by (simp add: to_double_exact)
  have t2: "to_double (s * 2) = Num (s * 2)"
    using sq b16 ab by (simp add: to_double_exact)
  have t3: "to_double (s * 4) = Num (s * 4)"
    using sq b16 ab by (simp add: to_double_exact)
  have t4: "to_double (s * s * 4) = Num (s * s * 4)"
    using sq b16 by (simp add: to_double_exact)
  have t5: "to_double (s * s * 16) = Num (s * s * 16)"
    using sq b16 by (simp add: to_double_exact)
  show ?thesis
    by (simp add: stretch_def new_Square_def new_Rectangle_def area_def setWidth_def
        setHeight_def Square_setSide_def console_log_def power2_eq_square Let_def
        t1 t2 t3 t4 t5 mult.commute)
qed

theorem stretch_Square_area_witness:
  "16 * (10::int)\<^sup>2 < 2 ^ 53
   \<and> area (fst (stretch (new_Square (Num 10)) \<lparr>files = Map.empty, unwritable = {}, events = []\<rparr>)) = Num 1600
   \<and> js_mul (Num 4) (area (new_Square (Num 10))) = Num 400
   \<and> events (snd (stretch (new_Square (Num 10)) \<lparr>files = Map.empty, unwritable = {}, events = []\<rparr>)) =
       [ConsoleLog (LStr ''Before stretching, area is: 100''),
        ConsoleLog (LStr ''Expected area: 400''),
        ConsoleLog (LStr ''Actual area: 1600'')]"
  using stretch_Square_area [of 10 "\<lparr>files = Map.empty, unwritable = {}, events = []\<rparr>"]
  by (simp add: show_int_def show_nat.simps)

text \<open>
  Without the bound the statement fails. The side 94906267 is a binary64 value, but its
  square is not: the original area is rounded, and the area after stretching is
  144115192254004608 where \<open>16 * s^2\<close> is 144115192254004624; the expected value is
  36028798063501152 where \<open>4 * s^2\<close> is 36028798063501156.
\<close>

theorem stretch_Square_area_counterexample:
  "area (fst (stretch (new_Square (Num 94906267)) \<lparr>files = Map.empty, unwritable = {}, events = []\<rparr>)) = Num 144115192254004608
   \<and> area (fst (stretch (new_Square (Num 94906267)) \<lparr>files = Map.empty, unwritable = {}, events = []\<rparr>)) \<noteq> Num (16 * 94906267\<^sup>2)
   \<and> js_mul (Num 4) (area (new_Square (Num 94906267))) = Num 36028798063501152
   \<and> js_mul (Num 4) (area (new_Square (Num 94906267))) \<noteq> Num (4 * 94906267\<^sup>2)"
  by (simp add: stretch_def new_Square_def new_Rectangle_def area_def setWidth_def
      setHeight_def Square_setSide_def console_log_def Let_def to_double_def round53_def
      bits.simps)

text \<open>
  C2. A rectangle prints its width, the letter x and its height; the rectangle built
  with 10 and 20 prints \<open>10x20\<close>.
\<close>

theorem Rectangle_toString_10x20:
  "Rectangle_toString (new_Rectangle (Num 10) (Num 20)) = ''10x20''
   \<and> Rectangle_toString (new_Rectangle w h) = js_toString w @ ''x'' @ js_toString h"
  by (simp add: Rectangle_toString_def new_Rectangle_def show_int_def show_nat.simps)

text \<open>
  C3. For a plain rectangle with integer width \<open>w\<close> and height \<open>h\<close> such that \<open>2 * w\<close>,
  \<open>2 * h\<close> and \<open>4 * w * h\<close> are below \<open>2^53\<close> in magnitude, stretching doubles both
  sides, so the area is \<open>4 * w * h\<close>, and the printed actual area is the printed
  expected area.
\<close>

theorem stretch_Rectangle_area:
  assumes "\<bar>2 * w\<bar> < 2 ^ 53" and "\<bar>2 * h\<bar> < 2 ^ 53" and "\<bar>4 * w * h\<bar> < 2 ^ 53"
  shows "width (fst (stretch (new_Rectangle (Num w) (Num h)) env)) = Num (2 * w)
   \<and> height (fst (stretch (new_Rectangle (Num w) (Num h)) env)) = Num (2 * h)
   \<and> area (fst (stretch (new_Rectangle (Num w) (Num h)) env)) = Num (4 * w * h)
   \<and> area (fst (stretch (new_Rectangle (Num w) (Num h)) env))
       = js_mul (Num 4) (area (new_Rectangle (Num w) (Num h)))
   \<and> events (snd (stretch (new_Rectangle (Num w) (Num h)) env)) = events env @
       [ConsoleLog (LStr (''Before stretching, area is: '' @ show_int (w * h))),
        ConsoleLog (LStr (''Expected area: '' @ show_int (4 * w * h))),
        ConsoleLog (LStr (''Actual area: '' @ show_int (4 * w * h)))]"
proof -
  have bw: "\<bar>w * 2\<bar> < 9007199254740992" using assms(1) by (simp add: mult.commute)
  have bh: "\<bar>h * 2\<bar> < 9007199254740992" using assms(2) by (simp add: mult.commute)
  have b4: "\<bar>w * h * 4\<bar> < 9007199254740992" using assms(3) by (simp add: mult_ac)
  have "\<bar>w * h * 4\<bar> = \<bar>w * h\<bar> * 4" by (simp add: abs_mult)
  with b4 have b1: "\<bar>w * h\<bar> < 9007199254740992" by linarith
  have t1: "to_double (h * w) = Num (h * w)"
    using b1 by (simp add: to_double_exact mult.commute)
  have t2: "to_double (w * 2) = Num (w * 2)" using bw by (simp add: to_double_exact)
  have t3: "to_double (h * 2) = Num (h * 2)" using bh by (simp add: to_double_exact)
  have t4: "to_double (w * h * 4) = Num (w * h * 4)" using b4 by (simp add: to_double_exact)
  have t5: "to_double (h * (w * 4)) = Num (h * (w * 4))"
    using b4 by (simp add: to_double_exact mult_ac)
  show ?thesis
    by (simp add: stretch_def new_Rectangle_def area_def setWidth_def setHeight_def
        Rectangle_setWidth_def Rectangle_setHeight_def console_log_def Let_def
        t1 t2 t3 t4 t5 mult_ac)
qed

theorem stretch_Rectangle_area_witness:
  "\<bar>2 * (11::int)\<bar> < 2 ^ 53 \<and> \<bar>2 * (5::int)\<bar> < 2 ^ 53 \<and> \<bar>4 * 11 * (5::int)\<bar> < 2 ^ 53
   \<and> width (fst (stretch (new_Rectangle (Num 11) (Num 5)) \<lparr>files = Map.empty, unwritable = {}, events = []\<rparr>)) = Num 22
   \<and> height (fst (stretch (new_Rectangle (Num 11) (Num 5)) \<lparr>files = Map.empty, unwritable = {}, events = []\<rparr>)) = Num 10
   \<and> area (fst (stretch (new_Rectangle (Num 11) (Num 5)) \<lparr>files = Map.empty, unwritable = {}, events = []\<rparr>)) = Num 220
   \<and> events (snd (stretch (new_Rectangle (Num 11) (Num 5)) \<lparr>files = Map.empty, unwritable = {}, events = []\<rparr>)) =
       [ConsoleLog (LStr ''Before stretching, area is: 55''),
        ConsoleLog (LStr ''Expected area: 220''),
        ConsoleLog (LStr ''Actual area: 220'')]"
  using stretch_Rectangle_area [of 11 5 "\<lparr>files = Map.empty, unwritable = {}, events = []\<rparr>"]
  by (simp add: show_int_def show_nat.simps)

text \<open>
  Without the bounds the statement fails. For width \<open>2^1023\<close> and height 0 the doubled
  width overflows to \<open>Infinity\<close>, whose product with 0 is \<open>NaN\<close>: the script prints an
  expected area of 0 and an actual area of \<open>NaN\<close>.
\<close>

theorem stretch_Rectangle_area_counterexample:
  "width (fst (stretch (new_Rectangle (Num (2 ^ 1023)) (Num 0)) \<lparr>files = Map.empty, unwritable = {}, events = []\<rparr>)) = PosInf
   \<and> width (fst (stretch (new_Rectangle (Num (2 ^ 1023)) (Num 0)) \<lparr>files = Map.empty, unwritable = {}, events = []\<rparr>)) \<noteq> Num (2 * 2 ^ 1023)
   \<and> area (fst (stretch (new_Rectangle (Num (2 ^ 1023)) (Num 0)) \<lparr>files = Map.empty, unwritable = {}, events = []\<rparr>)) = NaN
   \<and> area (fst (stretch (new_Rectangle (Num (2 ^ 1023)) (Num 0)) \<lparr>files = Map.empty, unwritable = {}, events = []\<rparr>)) \<noteq> Num (4 * 2 ^ 1023 * 0)
   \<and> js_mul (Num 4) (area (new_Rectangle (Num (2 ^ 1023)) (Num 0))) = Num 0
   \<and> events (snd (stretch (new_Rectangle (Num (2 ^ 1023)) (Num 0)) \<lparr>files = Map.empty, unwritable = {}, events = []\<rparr>)) =
       [ConsoleLog (LStr ''Before stretching, area is: 0''),
        ConsoleLog (LStr ''Expected area: 0''),
        ConsoleLog (LStr ''Actual area: NaN'')]"
  by (simp add: stretch_def new_Rectangle_def area_def setWidth_def setHeight_def
      Rectangle_setWidth_def Rectangle_setHeight_def console_log_def Let_def
      to_double_exact to_double_overflow_numeral show_int_def show_nat.simps)

text \<open>
  C10. Whatever the fields of a square hold (unequal numbers, \<open>undefined\<close>, \<open>NaN\<close>),
  after \<open>setWidth(v)\<close> or \<open>setHeight(v)\<close> both fields hold the value \<open>v\<close> and the area is
  the product \<open>v * v\<close> as JavaScript computes it. For every \<open>v\<close> other than \<open>NaN\<close> the
  fields compare equal under \<open>==\<close>, and for an integer \<open>n\<close> whose square is below \<open>2^53\<close>
  the area is the number \<open>n * n\<close>.
\<close>

theorem Square_setter_restores_invariant:
  "width (setWidth v (r\<lparr>proto := SquareClass\<rparr>)) = v
   \<and> height (setWidth v (r\<lparr>proto := SquareClass\<rparr>)) = v
   \<and> width (setHeight v (r\<lparr>proto := SquareClass\<rparr>)) = v
   \<and> height (setHeight v (r\<lparr>proto := SquareClass\<rparr>)) = v
   \<and> area (setWidth v (r\<lparr>proto := SquareClass\<rparr>)) = js_mul v v
   \<and> area (setHeight v (r\<lparr>proto := SquareClass\<rparr>)) = js_mul v v
   \<and> (v \<noteq> NaN \<longrightarrow>
        js_eq (width (setWidth v (r\<lparr>proto := SquareClass\<rparr>)))
              (height (setWidth v (r\<lparr>proto := SquareClass\<rparr>)))
        \<and> js_eq (width (setHeight v (r\<lparr>proto := SquareClass\<rparr>)))
                (height (setHeight v (r\<lparr>proto := SquareClass\<rparr>))))
   \<and> (n * n < 2 ^ 53 \<longrightarrow>
        area (setWidth (Num n) (r\<lparr>proto := SquareClass\<rparr>)) = Num (n * n)
        \<and> area (setHeight (Num n) (r\<lparr>proto := SquareClass\<rparr>)) = Num (n * n))"
proof -
  have e: "v \<noteq> NaN \<longrightarrow> js_eq v v" by (cases v) simp_all
  have "n * n < 2 ^ 53 \<longrightarrow> js_mul (Num n) (Num n) = Num (n * n)"
    by (simp add: to_double_exact)
  with e show ?thesis
    by (simp add: setWidth_def setHeight_def Square_setSide_def area_def)
qed

theorem Square_setter_restores_invariant_witness:
  "Num 10 \<noteq> NaN \<and> (10::int) * 10 < 2 ^ 53
   \<and> js_eq (width (setWidth (Num 10) ((new_Square Undefined)\<lparr>proto := SquareClass\<rparr>)))
           (height (setWidth (Num 10) ((new_Square Undefined)\<lparr>proto := SquareClass\<rparr>)))
   \<and> area (setWidth (Num 10) ((new_Square Undefined)\<lparr>proto := SquareClass\<rparr>)) = Num 100"
  using Square_setter_restores_invariant [of "Num 10" "new_Square Undefined" 10]
  by (simp add: to_double_exact)

text \<open>
  With \<open>NaN\<close> as the argument the fields do not compare equal. The value is one the
  repository's own code passes: \<open>stretch\<close> on \<open>new Square()\<close> calls the setter with
  \<open>undefined * 2\<close>.
\<close>

theorem Square_setter_counterexample:
  "\<not> js_eq (width (setWidth NaN (new_Square (Num 5)))) (height (setWidth NaN (new_Square (Num 5))))
   \<and> js_mul (width (new_Square Undefined)) (Num 2) = NaN
   \<and> width (fst (stretch (new_Square Undefined) \<lparr>files = Map.empty, unwritable = {}, events = []\<rparr>)) = NaN
   \<and> height (fst (stretch (new_Square Undefined) \<lparr>files = Map.empty, unwritable = {}, events = []\<rparr>)) = NaN
   \<and> \<not> js_eq (width (fst (stretch (new_Square Undefined) \<lparr>files = Map.empty, unwritable = {}, events = []\<rparr>)))
             (height (fst (stretch (new_Square Undefined) \<lparr>files = Map.empty, unwritable = {}, events = []\<rparr>)))"
  by (simp add: stretch_def new_Square_def new_Rectangle_def setWidth_def setHeight_def
      Square_setSide_def Let_def)

section \<open>Properties of the Journal\<close>

lemma added_append: "added (cs @ ds) = added cs @ added ds"
  by (induction cs rule: added.induct) simp_all

lemma numbered_append:
  "numbered n (ts @ us) = numbered n ts @ numbered (n + int (length ts)) us"
  by (induction ts arbitrary: n) (simp_all add: add.assoc)

lemma keys_numbered: "e \<in> set (numbered n ts) \<Longrightarrow> n \<le> fst e \<and> fst e < n + int (length ts)"
  by (induction ts arbitrary: n) fastforce+

lemma obj_set_last: "\<forall>e\<in>set es. fst e < k \<Longrightarrow> obj_set k v es = es @ [(k, v)]"
  by (induction es) auto

lemma obj_delete_absent: "map_of es k = None \<Longrightarrow> obj_delete k es = es"
  unfolding obj_delete_def
  by (induction es) (auto split: if_splits)

lemma subseq_mem: "subseq xs ys \<Longrightarrow> x \<in> set xs \<Longrightarrow> x \<in> set ys"
  by (induction rule: list_emb.induct) auto

lemma run_snoc: "run (cs @ [c]) = call c (run cs)"
  by (simp add: run_def)

lemma run_invariant:
  "count (run cs) = int (length (added cs)) \<and> subseq (entries (run cs)) (numbered 1 (added cs))"
proof (induction cs rule: rev_induct)
  case Nil
  show ?case by (simp add: run_def new_Journal_def)
next
  case (snoc c cs)
  let ?j = "run cs"
  from snoc have cnt: "count ?j = int (length (added cs))"
    and sub: "subseq (entries ?j) (numbered 1 (added cs))" by simp_all
  have keys: "\<forall>e\<in>set (entries ?j). fst e < count ?j + 1"
  proof
    fix e assume "e \<in> set (entries ?j)"
    with sub have "e \<in> set (numbered 1 (added cs))" by (rule subseq_mem)
    from keys_numbered[OF this] cnt show "fst e < count ?j + 1" by simp
  qed
  show ?case
  proof (cases c)
    case (AddEntry t)
    let ?x = "(count ?j + 1, show_int (count ?j + 1) @ '': '' @ t)"
    have e: "entries (call c ?j) = entries ?j @ [?x]"
      using AddEntry obj_set_last[OF keys] by (simp add: addEntry_def Let_def)
    have n: "numbered 1 (added (cs @ [c])) = numbered 1 (added cs) @ [?x]"
      using AddEntry cnt by (simp add: added_append numbered_append add.commute)
    have c: "count (call c ?j) = int (length (added (cs @ [c])))"
      using AddEntry cnt by (simp add: addEntry_def Let_def added_append)
    have "subseq (entries ?j @ [?x]) (numbered 1 (added cs) @ [?x])"
      using sub by (rule list_emb_append_mono) simp
    with e n c show ?thesis by (simp only: run_snoc) 
  next
    case (RemoveEntry index)
    have "subseq (entries (call c ?j)) (entries ?j)"
      using RemoveEntry by (simp add: removeEntry_def obj_delete_def)
    from this sub have "subseq (entries (call c ?j)) (numbered 1 (added cs))"
      by (rule subseq_order.trans)
    moreover have "added (cs @ [c]) = added cs" using RemoveEntry by (simp add: added_append)
    moreover have "count (call c ?j) = count ?j" using RemoveEntry by (simp add: removeEntry_def)
    ultimately show ?thesis using cnt by (simp only: run_snoc) 
  qed
qed


lemma map_of_obj_set: "map_of (obj_set k v es) k = Some v"
  by (induction es) auto

lemma count_call_mono: "count j \<le> count (call c j)"
  by (cases c) (simp_all add: addEntry_def Let_def removeEntry_def)

lemma count_fold_mono: "count j \<le> count (fold call cs j)"
proof (induction cs arbitrary: j)
  case Nil
  show ?case by simp
next
  case (Cons c cs)
  have "count j \<le> count (call c j)" by (rule count_call_mono)
  also have "\<dots> \<le> count (fold call cs (call c j))" by (rule Cons.IH)
  finally show ?case by simp
qed

lemma entries_keys_bounded:
  assumes "e \<in> set (entries (run cs))"
  shows "1 \<le> fst e \<and> fst e \<le> count (run cs)"
proof -
  have "subseq (entries (run cs)) (numbered 1 (added cs))" using run_invariant by blast
  then have "e \<in> set (numbered 1 (added cs))" using assms by (rule subseq_mem)
  from keys_numbered[OF this] show ?thesis using run_invariant[of cs] by simp
qed

lemma addEntry_appends:
  "entries (snd (addEntry t (run cs))) =
     entries (run cs) @ [(count (run cs) + 1, show_int (count (run cs) + 1) @ '': '' @ t)]"
proof -
  have "\<forall>e\<in>set (entries (run cs)). fst e < count (run cs) + 1"
    using entries_keys_bounded by fastforce
  from obj_set_last[OF this] show ?thesis by (simp add: addEntry_def Let_def)
qed

lemma fresh_key_unused: "count (run cs) + 1 \<notin> fst ` set (numbered 1 (added cs))"
proof
  assume "count (run cs) + 1 \<in> fst ` set (numbered 1 (added cs))"
  then obtain e where "e \<in> set (numbered 1 (added cs))" and "fst e = count (run cs) + 1" by auto
  with keys_numbered[of e 1 "added cs"] run_invariant[of cs] show False by simp
qed

text \<open>
  C4. After any history of calls on a new journal, of which \<open>n - 1\<close> were calls of
  \<open>addEntry\<close>, the next \<open>addEntry(t)\<close> returns \<open>n\<close> and stores the string made of \<open>n\<close>,
  a colon, a space and \<open>t\<close> under key \<open>n\<close>. The stored entries are, in order, a
  selection of the numbered texts added so far, and \<open>toString\<close> joins them with
  newlines.
\<close>

theorem addEntry_numbers_entries:
  "fst (addEntry t (run cs)) = int (length (added cs)) + 1
   \<and> map_of (entries (snd (addEntry t (run cs)))) (int (length (added cs)) + 1)
       = Some (show_int (int (length (added cs)) + 1) @ '': '' @ t)
   \<and> subseq (entries (run cs)) (numbered 1 (added cs))
   \<and> Journal_toString (run cs) = join [CHR 0x0A] (map snd (entries (run cs)))"
proof -
  have c: "count (run cs) = int (length (added cs))" using run_invariant by blast
  have "fst (addEntry t (run cs)) = int (length (added cs)) + 1"
    using c by (simp add: addEntry_def Let_def)
  moreover have "map_of (entries (snd (addEntry t (run cs)))) (int (length (added cs)) + 1)
       = Some (show_int (int (length (added cs)) + 1) @ '': '' @ t)"
    using c by (simp add: addEntry_def Let_def map_of_obj_set)
  moreover have "subseq (entries (run cs)) (numbered 1 (added cs))" using run_invariant by blast
  moreover have "Journal_toString (run cs) = join [CHR 0x0A] (map snd (entries (run cs)))"
    by (simp add: Journal_toString_def obj_values_def)
  ultimately show ?thesis by blast
qed

text \<open>
  C9. Over any sequence of \<open>addEntry\<close> and \<open>removeEntry\<close> calls \<open>count\<close> never decreases.
  On a journal reached from \<open>new Journal()\<close> every key in \<open>entries\<close> lies between 1 and
  \<open>count\<close>; the key \<open>addEntry\<close> uses next is neither present nor was it ever handed
  out, and \<open>addEntry\<close> keeps every stored entry and puts the new one behind them.
  \<open>removeEntry(i)\<close> for a key that is not present changes nothing.
\<close>

theorem journal_key_freshness:
  "count j \<le> count (fold call cs j)
   \<and> fst ` set (entries (run cs)) \<subseteq> {1 .. count (run cs)}
   \<and> map_of (entries (run cs)) (count (run cs) + 1) = None
   \<and> count (run cs) + 1 \<notin> fst ` set (numbered 1 (added cs))
   \<and> entries (snd (addEntry t (run cs))) =
        entries (run cs) @ [(count (run cs) + 1, show_int (count (run cs) + 1) @ '': '' @ t)]
   \<and> (map_of (entries j) i = None \<longrightarrow> removeEntry i j = j)"
proof -
  have bounded: "fst ` set (entries (run cs)) \<subseteq> {1 .. count (run cs)}"
    using entries_keys_bounded by fastforce
  then have "count (run cs) + 1 \<notin> fst ` set (entries (run cs))" by auto
  then have "map_of (entries (run cs)) (count (run cs) + 1) = None"
    by (simp add: map_of_eq_None_iff)
  moreover have "map_of (entries j) i = None \<longrightarrow> removeEntry i j = j"
    by (simp add: removeEntry_def obj_delete_absent)
  ultimately show ?thesis
    using bounded count_fold_mono fresh_key_unused addEntry_appends by blast
qed

theorem journal_key_freshness_witness:
  "map_of (entries (run [AddEntry ''a'', AddEntry ''b'', RemoveEntry 1])) 1 = None
   \<and> removeEntry 1 (run [AddEntry ''a'', AddEntry ''b'', RemoveEntry 1])
       = run [AddEntry ''a'', AddEntry ''b'', RemoveEntry 1]
   \<and> entries (run [AddEntry ''a'', AddEntry ''b'', RemoveEntry 1]) = [(2, ''2: b'')]
   \<and> count (run [AddEntry ''a'', AddEntry ''b'', RemoveEntry 1]) = 2"
  using journal_key_freshness [where j = "run [AddEntry ''a'', AddEntry ''b'', RemoveEntry 1]"
      and i = 1 and cs = "[]" and t = "[]"]
  by (simp add: run_def new_Journal_def addEntry_def Let_def removeEntry_def obj_delete_def
      show_int_def show_nat.simps)


section \<open>Effects of the scripts\<close>

lemma saveToFile_events:
  "events (snd (snd (saveToFile journal fileName w))) =
     events w @ [WriteFileSync fileName (Journal_toString journal)]"
  by (simp add: saveToFile_def writeFileSync_def Let_def)

lemma saveToFile_journal: "fst (snd (saveToFile journal fileName w)) = journal"
  by (simp add: saveToFile_def split: prod.splits)

lemma saveToFile_ok:
  "fileName \<notin> unwritable w \<Longrightarrow>
     fst (saveToFile journal fileName w) = Inr ()
     \<and> files (snd (snd (saveToFile journal fileName w))) = (files w)(fileName \<mapsto> Journal_toString journal)"
  by (simp add: saveToFile_def writeFileSync_def Let_def)

lemma saveToFile_fails:
  "fileName \<in> unwritable w \<Longrightarrow>
     fst (saveToFile journal fileName w) = Inl (WriteFailed fileName)
     \<and> files (snd (snd (saveToFile journal fileName w))) = files w"
  by (simp add: saveToFile_def writeFileSync_def Let_def)

lemma script_srp_unfold:
  "script_s_for_single_responsibility w =
     saveToFile \<lparr>count = 2, entries = [(1, ''1: Today was a great day!''), (2, ''2: I made a new friend today'')]\<rparr>
       ''./journal.txt'' (console_log (LStr journal_text) w)"
  by (simp add: script_s_for_single_responsibility_def new_Journal_def journal_text_def
      addEntry_def Let_def show_int_def show_nat.simps Journal_toString_def obj_values_def)

lemma script_srp_events:
  "events (snd (snd (script_s_for_single_responsibility w))) =
     events w @ [ConsoleLog (LStr journal_text), WriteFileSync ''./journal.txt'' journal_text]"
  by (simp add: script_srp_unfold saveToFile_events console_log_def Journal_toString_def
      obj_values_def journal_text_def)

lemma script_part_001_effects:
  "events (script_part_001 w) = events w @
     [ConsoleLog (LStr ''10x20''), ConsoleLog (LStr ''5x5''), ConsoleLog (LStr ''10x5''),
      ConsoleLog (LVal (Num 100))]
   \<and> files (script_part_001 w) = files w"
  by (simp add: script_part_001_def Let_def console_log_def Rectangle_toString_def
      new_Rectangle_def new_Square_def setWidth_def Square_setSide_def area_def
      to_double_exact show_int_def show_nat.simps)

lemma script_part_000_effects:
  "events (script_part_000 w) = events w @
     [ConsoleLog (LStr ''10x20''), ConsoleLog (LStr ''5x5''), ConsoleLog (LStr ''10x5''),
      ConsoleLog (LVal (Num 100)),
      ConsoleLog (LStr ''Before stretching, area is: 55''),
      ConsoleLog (LStr ''Expected area: 220''),
      ConsoleLog (LStr ''Actual area: 220''),
      ConsoleLog (LStr ''Before stretching, area is: 100''),
      ConsoleLog (LStr ''Expected area: 400''),
      ConsoleLog (LStr ''Actual area: 1600'')]
   \<and> files (script_part_000 w) = files w"
  by (simp add: script_part_000_def stretch_def Let_def console_log_def Rectangle_toString_def
      new_Rectangle_def new_Square_def setWidth_def setHeight_def Square_setSide_def
      Rectangle_setWidth_def Rectangle_setHeight_def area_def
      to_double_exact show_int_def show_nat.simps)

lemma script_o_for_open_closed_effects:
  "events (script_o_for_open_closed w) = events w @
     [ConsoleLog (LProducts [\<lparr>name = ''Book'', color = ''red'', size' = ''small''\<rparr>])]
   \<and> files (script_o_for_open_closed w) = files w"
  by (simp add: script_o_for_open_closed_def Let_def console_log_def filterByColor_def
      products_def new_Product_def Color_red_def Color_green_def Color_blue_def
      Size_small_def Size_medium_def Size_large_def)

lemma script_part_002_effects:
  "events (script_part_002 w) = events w @
     [ConsoleLog (LProducts [\<lparr>name = ''Book'', color = ''red'', size' = ''small''\<rparr>]),
      ConsoleLog (LStr ''Green products based on the new filter:''),
      ConsoleLog (LProducts [\<lparr>name = ''Surfboard'', color = ''green'', size' = ''large''\<rparr>])]
   \<and> files (script_part_002 w) = files w"
  by (simp add: script_part_002_def Let_def console_log_def filterByColor_def Filter2_filter_def
      products_def new_Product_def Color_red_def Color_green_def Color_blue_def
      Size_small_def Size_medium_def Size_large_def)

text \<open>
  C5. \<open>saveToFile(journal, fileName)\<close> makes one call of \<open>fs.writeFileSync\<close>, with the
  path it was given and the string \<open>journal.toString()\<close>, and when the write goes through
  the file at that path holds exactly this string. The single-responsibility script
  makes exactly one write, of the two numbered entries as plain text, to
  \<open>./journal.txt\<close>; the other four scripts make no write and leave every file as it was.
\<close>

theorem single_file_write:
  "events (snd (snd (saveToFile journal fileName w)))
     = events w @ [WriteFileSync fileName (Journal_toString journal)]
   \<and> (fileName \<notin> unwritable w \<longrightarrow>
        files (snd (snd (saveToFile journal fileName w)))
          = (files w)(fileName \<mapsto> Journal_toString journal))
   \<and> filter is_write (events (snd (snd (script_s_for_single_responsibility w))))
       = filter is_write (events w) @ [WriteFileSync ''./journal.txt'' journal_text]
   \<and> filter is_write (events (script_o_for_open_closed w)) = filter is_write (events w)
   \<and> files (script_o_for_open_closed w) = files w
   \<and> filter is_write (events (script_part_000 w)) = filter is_write (events w)
   \<and> files (script_part_000 w) = files w
   \<and> filter is_write (events (script_part_001 w)) = filter is_write (events w)
   \<and> files (script_part_001 w) = files w
   \<and> filter is_write (events (script_part_002 w)) = filter is_write (events w)
   \<and> files (script_part_002 w) = files w"
  by (simp add: saveToFile_events saveToFile_ok script_srp_events script_part_000_effects
      script_part_001_effects script_part_002_effects script_o_for_open_closed_effects)

theorem single_file_write_witness:
  "''out.txt'' \<notin> unwritable \<lparr>files = Map.empty, unwritable = {}, events = []\<rparr>
   \<and> files (snd (snd (saveToFile (run [AddEntry ''a'', AddEntry ''b'']) ''out.txt''
         \<lparr>files = Map.empty, unwritable = {}, events = []\<rparr>))) ''out.txt''
       = Some (''1: a'' @ [CHR 0x0A] @ ''2: b'')"
  using single_file_write [where fileName = "''out.txt''"
      and journal = "run [AddEntry ''a'', AddEntry ''b'']"
      and w = "\<lparr>files = Map.empty, unwritable = {}, events = []\<rparr>"]
  by (simp add: run_def new_Journal_def addEntry_def Let_def show_int_def show_nat.simps
      Journal_toString_def obj_values_def)

text \<open>
  C6. In every environment a run of the single-responsibility script prints the journal
  and then calls \<open>fs.writeFileSync\<close> exactly once, on \<open>./journal.txt\<close> itself, and does
  nothing after it. When the write goes through, the file holds the journal text
  whatever it held before; when it throws, the script ends with that exception, with no
  second attempt and no further file operation.
\<close>

theorem one_whole_file_write:
  "events (snd (snd (script_s_for_single_responsibility w)))
     = events w @ [ConsoleLog (LStr journal_text), WriteFileSync ''./journal.txt'' journal_text]
   \<and> length (filter is_write (events (snd (snd (script_s_for_single_responsibility w)))))
       = length (filter is_write (events w)) + 1
   \<and> (''./journal.txt'' \<notin> unwritable w \<longrightarrow>
        fst (script_s_for_single_responsibility w) = Inr ()
        \<and> files (snd (snd (script_s_for_single_responsibility w)))
            = (files w)(''./journal.txt'' \<mapsto> journal_text))
   \<and> (''./journal.txt'' \<in> unwritable w \<longrightarrow>
        fst (script_s_for_single_responsibility w) = Inl (WriteFailed ''./journal.txt''))"
proof -
  have ok: "''./journal.txt'' \<notin> unwritable w \<longrightarrow>
        fst (script_s_for_single_responsibility w) = Inr ()
        \<and> files (snd (snd (script_s_for_single_responsibility w)))
            = (files w)(''./journal.txt'' \<mapsto> journal_text)"
    using saveToFile_ok [of "''./journal.txt''" "console_log (LStr journal_text) w"]
    by (simp add: script_srp_unfold console_log_def Journal_toString_def obj_values_def
        journal_text_def)
  have bad: "''./journal.txt'' \<in> unwritable w \<longrightarrow>
        fst (script_s_for_single_responsibility w) = Inl (WriteFailed ''./journal.txt'')"
    using saveToFile_fails [of "''./journal.txt''" "console_log (LStr journal_text) w"]
    by (simp add: script_srp_unfold console_log_def)
  show ?thesis using ok bad by (simp add: script_srp_events)
qed

theorem one_whole_file_write_witness:
  "''./journal.txt'' \<notin> unwritable \<lparr>files = [''./journal.txt'' \<mapsto> ''old content''], unwritable = {''/etc/passwd''}, events = []\<rparr>
   \<and> files (snd (snd (script_s_for_single_responsibility
         \<lparr>files = [''./journal.txt'' \<mapsto> ''old content''], unwritable = {''/etc/passwd''}, events = []\<rparr>)))
         ''./journal.txt''
       = Some journal_text
   \<and> ''./journal.txt'' \<in> unwritable \<lparr>files = Map.empty, unwritable = {''./journal.txt''}, events = []\<rparr>
   \<and> fst (script_s_for_single_responsibility
         \<lparr>files = Map.empty, unwritable = {''./journal.txt''}, events = []\<rparr>)
       = Inl (WriteFailed ''./journal.txt'')"
  using one_whole_file_write [where w = "\<lparr>files = [''./journal.txt'' \<mapsto> ''old content''], unwritable = {''/etc/passwd''}, events = []\<rparr>"]
    one_whole_file_write [where w = "\<lparr>files = Map.empty, unwritable = {''./journal.txt''}, events = []\<rparr>"]
  by simp

text \<open>
  C7. When the write throws, \<open>saveToFile\<close> ends with the exception and the journal it was
  given is unchanged, \<open>count\<close> and \<open>entries\<close> included; at the top level of the script the
  exception is the outcome of the run, and the journal is still the one built by the
  two \<open>addEntry\<close> calls.
\<close>

theorem write_failure_propagates:
  "(fileName \<in> unwritable w \<longrightarrow>
      fst (saveToFile journal fileName w) = Inl (WriteFailed fileName)
      \<and> fst (snd (saveToFile journal fileName w)) = journal
      \<and> count (fst (snd (saveToFile journal fileName w))) = count journal
      \<and> entries (fst (snd (saveToFile journal fileName w))) = entries journal)
   \<and> (''./journal.txt'' \<in> unwritable w \<longrightarrow>
        fst (script_s_for_single_responsibility w) = Inl (WriteFailed ''./journal.txt'')
        \<and> fst (snd (script_s_for_single_responsibility w))
            = run [AddEntry ''Today was a great day!'', AddEntry ''I made a new friend today''])"
proof -
  have "''./journal.txt'' \<in> unwritable w \<longrightarrow>
        fst (script_s_for_single_responsibility w) = Inl (WriteFailed ''./journal.txt'')"
    using saveToFile_fails [of "''./journal.txt''" "console_log (LStr journal_text) w"]
    by (simp add: script_srp_unfold console_log_def)
  moreover have "fst (snd (script_s_for_single_responsibility w))
            = run [AddEntry ''Today was a great day!'', AddEntry ''I made a new friend today'']"
    by (simp add: script_s_for_single_responsibility_def saveToFile_journal run_def Let_def)
  ultimately show ?thesis by (simp add: saveToFile_fails saveToFile_journal)
qed

theorem write_failure_propagates_witness:
  "''j.txt'' \<in> unwritable \<lparr>files = Map.empty, unwritable = {''j.txt'', ''./journal.txt''}, events = []\<rparr>
   \<and> saveToFile (run [AddEntry ''a'']) ''j.txt''
        \<lparr>files = Map.empty, unwritable = {''j.txt'', ''./journal.txt''}, events = []\<rparr>
       = (Inl (WriteFailed ''j.txt''), \<lparr>count = 1, entries = [(1, ''1: a'')]\<rparr>,
          \<lparr>files = Map.empty, unwritable = {''j.txt'', ''./journal.txt''},
           events = [WriteFileSync ''j.txt'' ''1: a'']\<rparr>)
   \<and> ''./journal.txt'' \<in> unwritable \<lparr>files = Map.empty, unwritable = {''j.txt'', ''./journal.txt''}, events = []\<rparr>
   \<and> fst (script_s_for_single_responsibility
        \<lparr>files = Map.empty, unwritable = {''j.txt'', ''./journal.txt''}, events = []\<rparr>)
       = Inl (WriteFailed ''./journal.txt'')"
  using write_failure_propagates [where fileName = "''j.txt''" and journal = "run [AddEntry ''a'']"
      and w = "\<lparr>files = Map.empty, unwritable = {''j.txt'', ''./journal.txt''}, events = []\<rparr>"]
  by (simp add: run_def new_Journal_def addEntry_def Let_def show_int_def show_nat.simps
      saveToFile_def writeFileSync_def Journal_toString_def obj_values_def)

section \<open>Properties of the filters\<close>

text \<open>
  C8. On every list of products, \<open>filterByColor\<close> with a color returns the same list as
  \<open>Filter2.filter\<close> with the color specification of that color, and \<open>filterBySize\<close> with
  a size the same list as \<open>Filter2.filter\<close> with the size specification of that size.
\<close>

theorem filters_agree:
  "filterByColor ps c = Filter2_filter ps (ColorSpecification c)
   \<and> filterBySize ps s = Filter2_filter ps (SizeSpecification s)"
  by (simp add: filterByColor_def filterBySize_def Filter2_filter_def)

end
